theory Spec2Isabelle
  imports Complex_Main
begin

section \<open>Numbers\<close>

text \<open>
  The program computes with Python and NumPy floats. This development reads every finite
  float as the real number it denotes and every operation on finite floats as the exact
  operation on reals: rounding, overflow and the sign of zero are outside the model.
  Two places need more than finite numbers and are modelled with the type \<open>fval\<close> below:
  the cells of a pandas table, which may be missing (\<open>NaN\<close>), and the vectorised
  NumPy arithmetic on them, which divides without a guard and so yields \<open>NaN\<close> or an
  infinity (\<open>Inf True\<close> is \<open>+inf\<close>, \<open>Inf False\<close> is \<open>-inf\<close>) where Python's own
  float division would raise. A zero divisor is read as \<open>+0.0\<close>.

  \<open>portfolio.py\<close> only multiplies, adds and subtracts, and divides behind an explicit
  test of the divisor, so finite fields give finite results: there the fields of a
  position are plain \<open>real\<close> and an absent value is \<open>None\<close>.
\<close>

datatype fval = NaN | Inf bool | Fin real

section \<open>portfolio.py: Position\<close>

record Position =
  ticker :: string
  quantity :: real
  avg_cost :: real
  latest_price :: "real option"
  sector :: "string option"

definition cost_basis :: "Position \<Rightarrow> real" where
  "cost_basis p = quantity p * avg_cost p"

definition market_value :: "Position \<Rightarrow> real option" where
  "market_value p =
     (case latest_price p of
        None \<Rightarrow> None
      | Some price \<Rightarrow> Some (quantity p * price))"

definition unrealized_pl :: "Position \<Rightarrow> real option" where
  "unrealized_pl p =
     (case market_value p of
        None \<Rightarrow> None
      | Some mv \<Rightarrow> Some (mv - cost_basis p))"

definition unrealized_pl_pct :: "Position \<Rightarrow> real option" where
  "unrealized_pl_pct p =
     (if unrealized_pl p = None \<or> cost_basis p = 0 then None
      else Some ((the (unrealized_pl p) / cost_basis p) * 100))"

section \<open>portfolio.py: Portfolio totals\<close>

record Portfolio =
  positions :: "Position list"

text \<open>Python's builtin \<open>sum\<close> adds from the left, starting at 0.\<close>

definition py_sum :: "real list \<Rightarrow> real" where
  "py_sum xs = foldl (+) 0 xs"

definition total_cost_basis :: "Portfolio \<Rightarrow> real" where
  "total_cost_basis pf = py_sum (map cost_basis (positions pf))"

definition total_market_value :: "Portfolio \<Rightarrow> real option" where
  "total_market_value pf =
     (let values = map (\<lambda>p. the (market_value p))
                     (filter (\<lambda>p. market_value p \<noteq> None) (positions pf))
      in if values = [] then None else Some (py_sum values))"

definition total_unrealized_pl :: "Portfolio \<Rightarrow> real option" where
  "total_unrealized_pl pf =
     (case total_market_value pf of
        None \<Rightarrow> None
      | Some tmv \<Rightarrow> Some (tmv - total_cost_basis pf))"

definition total_unrealized_pl_pct :: "Portfolio \<Rightarrow> real option" where
  "total_unrealized_pl_pct pf =
     (if total_unrealized_pl pf = None \<or> total_cost_basis pf = 0 then None
      else Some ((the (total_unrealized_pl pf) / total_cost_basis pf) * 100))"

section \<open>portfolio.py: to_dataframe\<close>

text \<open>
  One dictionary per position, in the order of the positions: the \<open>row\<close> of the loop in
  \<open>to_dataframe\<close>.
\<close>

record Row =
  row_ticker :: string
  row_quantity :: real
  row_avg_cost :: real
  row_cost_basis :: real
  row_latest_price :: "real option"
  row_market_value :: "real option"
  row_unrealized_pl :: "real option"
  row_unrealized_pl_pct :: "real option"
  row_sector :: "string option"

definition row_of :: "Position \<Rightarrow> Row" where
  "row_of p =
     \<lparr>row_ticker = ticker p,
      row_quantity = quantity p,
      row_avg_cost = avg_cost p,
      row_cost_basis = cost_basis p,
      row_latest_price = latest_price p,
      row_market_value = market_value p,
      row_unrealized_pl = unrealized_pl p,
      row_unrealized_pl_pct = unrealized_pl_pct p,
      row_sector = sector p\<rparr>"

text \<open>
  The frame \<open>to_dataframe\<close> returns: the rows, and the column \<open>weight_pct\<close>, which the
  frame either has for all rows or does not have at all.
\<close>

record AnalyticsFrame =
  frame_rows :: "Row list"
  weight_pct :: "real list option"

datatype error = KeyError | ValueError

text \<open>\<open>Series.fillna(0.0)\<close> on one cell.\<close>

definition fillna0 :: "real option \<Rightarrow> real" where
  "fillna0 v = (case v of None \<Rightarrow> 0 | Some x \<Rightarrow> x)"

text \<open>
  \<open>pd.DataFrame(rows)\<close> takes its columns from the keys of the dictionaries, so for an
  empty list it has no column, and \<open>df["market_value"]\<close> then raises \<open>KeyError\<close>.
  \<open>Series.sum\<close> is the sum of the cells.
\<close>

definition to_dataframe :: "Portfolio \<Rightarrow> error + AnalyticsFrame" where
  "to_dataframe pf =
     (let recs = map row_of (positions pf) in
      if recs = [] then Inl KeyError
      else
        let mv = map row_market_value recs in
        if list_ex (\<lambda>v. v \<noteq> None) mv then
          let total_value = sum_list (map fillna0 mv) in
          if total_value > 0 then
            Inr \<lparr>frame_rows = recs,
                 weight_pct = Some (map (\<lambda>v. (fillna0 v / total_value) * 100) mv)\<rparr>
          else Inr \<lparr>frame_rows = recs, weight_pct = None\<rparr>
        else Inr \<lparr>frame_rows = recs, weight_pct = None\<rparr>)"

section \<open>Arithmetic on table cells\<close>

fun isna :: "fval \<Rightarrow> bool" where
  "isna NaN = True"
| "isna _ = False"

fun isfinite :: "fval \<Rightarrow> bool" where
  "isfinite (Fin _) = True"
| "isfinite _ = False"

fun fneg :: "fval \<Rightarrow> fval" where
  "fneg NaN = NaN"
| "fneg (Inf s) = Inf (\<not> s)"
| "fneg (Fin x) = Fin (- x)"

fun fadd :: "fval \<Rightarrow> fval \<Rightarrow> fval" where
  "fadd (Fin x) (Fin y) = Fin (x + y)"
| "fadd (Inf s) (Inf t) = (if s = t then Inf s else NaN)"
| "fadd (Inf s) (Fin y) = Inf s"
| "fadd (Fin x) (Inf t) = Inf t"
| "fadd _ _ = NaN"

definition fsub :: "fval \<Rightarrow> fval \<Rightarrow> fval" where
  "fsub a b = fadd a (fneg b)"

fun fmul :: "fval \<Rightarrow> fval \<Rightarrow> fval" where
  "fmul (Fin x) (Fin y) = Fin (x * y)"
| "fmul (Inf s) (Inf t) = Inf (s = t)"
| "fmul (Inf s) (Fin y) = (if y = 0 then NaN else Inf (if 0 < y then s else \<not> s))"
| "fmul (Fin x) (Inf t) = (if x = 0 then NaN else Inf (if 0 < x then t else \<not> t))"
| "fmul _ _ = NaN"

fun fdiv :: "fval \<Rightarrow> fval \<Rightarrow> fval" where
  "fdiv (Fin x) (Fin y) =
     (if y = 0 then (if x = 0 then NaN else Inf (0 < x)) else Fin (x / y))"
| "fdiv (Fin x) (Inf t) = Fin 0"
| "fdiv (Inf s) (Fin y) = Inf (if y < 0 then \<not> s else s)"
| "fdiv _ _ = NaN"

fun fsqrt :: "fval \<Rightarrow> fval" where
  "fsqrt NaN = NaN"
| "fsqrt (Inf s) = (if s then Inf True else NaN)"
| "fsqrt (Fin x) = (if x < 0 then NaN else Fin (sqrt x))"

text \<open>\<open>flt a b\<close> is the comparison \<open>a < b\<close>; it is false when either side is \<open>NaN\<close>.\<close>

fun flt :: "fval \<Rightarrow> fval \<Rightarrow> bool" where
  "flt (Fin x) (Fin y) = (x < y)"
| "flt (Inf s) (Fin y) = (\<not> s)"
| "flt (Fin x) (Inf t) = t"
| "flt (Inf s) (Inf t) = (\<not> s \<and> t)"
| "flt _ _ = False"

text \<open>
  The sum of an array. With exact addition the order in which NumPy adds the elements
  does not change the result.
\<close>

definition fsum :: "fval list \<Rightarrow> fval" where
  "fsum xs = foldr fadd xs (Fin 0)"

section \<open>portfolio.py: the weights in float64\<close>

text \<open>
  A second, finer model of lines 94 to 99 of \<open>to_dataframe\<close>, for the question what
  rounding and overflow do to the weights. \<open>round64 x\<close> is the binary64 number nearest
  to the real \<open>x\<close>: 53 bits of precision, ties to the even significand, a unit in the last
  place of at least \<open>2^-1074\<close> (the subnormal numbers), and an infinity when the rounded
  magnitude reaches \<open>2^1024\<close>. Every float64 operation is the exact operation followed
  by this rounding (IEEE 754); the special values behave as in the arithmetic above.
\<close>

definition round_half_even :: "real \<Rightarrow> int" where
  "round_half_even q =
     (let f = \<lfloor>q\<rfloor>;
          r = q - real_of_int f
      in if r < 1 / 2 then f
         else if 1 / 2 < r then f + 1
         else if even f then f else f + 1)"

definition round64 :: "real \<Rightarrow> fval" where
  "round64 x =
     (if x = 0 then Fin 0
      else
        let e = max (\<lfloor>log 2 \<bar>x\<bar>\<rfloor> - 52) (- 1074);
            y = real_of_int (round_half_even (x / 2 powr real_of_int e)) * 2 powr real_of_int e
        in if 2 ^ 1024 \<le> \<bar>y\<bar> then Inf (0 < x) else Fin y)"

fun rnd :: "fval \<Rightarrow> fval" where
  "rnd (Fin x) = round64 x"
| "rnd v = v"

definition add64 :: "fval \<Rightarrow> fval \<Rightarrow> fval" where
  "add64 a b = rnd (fadd a b)"

definition mul64 :: "fval \<Rightarrow> fval \<Rightarrow> fval" where
  "mul64 a b = rnd (fmul a b)"

definition div64 :: "fval \<Rightarrow> fval \<Rightarrow> fval" where
  "div64 a b = rnd (fdiv a b)"

text \<open>
  \<open>Series.sum\<close>: NumPy adds fewer than 8 cells one after the other, starting at 0. (Longer
  columns are added in blocks; this model is used for short columns only.)
\<close>

definition sum64 :: "fval list \<Rightarrow> fval" where
  "sum64 xs = foldl add64 (Fin 0) xs"

text \<open>
  The fields of a position are taken to be binary64 numbers. A cell of the column
  \<open>market_value\<close> is missing when the position has no price or the product is \<open>NaN\<close>.
  The result is the column \<open>weight_pct\<close>, or \<open>None\<close> when the frame has no such column.
\<close>

definition market_value_f64 :: "Position \<Rightarrow> fval option" where
  "market_value_f64 p =
     (case latest_price p of
        None \<Rightarrow> None
      | Some price \<Rightarrow> Some (mul64 (Fin (quantity p)) (Fin price)))"

definition notna :: "fval option \<Rightarrow> bool" where
  "notna v = (case v of None \<Rightarrow> False | Some x \<Rightarrow> \<not> isna x)"

definition fillna0_f64 :: "fval option \<Rightarrow> fval" where
  "fillna0_f64 v = (case v of None \<Rightarrow> Fin 0 | Some x \<Rightarrow> if isna x then Fin 0 else x)"

definition weight_pct_f64 :: "Portfolio \<Rightarrow> error + fval list option" where
  "weight_pct_f64 pf =
     (if positions pf = [] then Inl KeyError
      else
        let mv = map market_value_f64 (positions pf) in
        if list_ex notna mv then
          let total_value = sum64 (map fillna0_f64 mv) in
          if flt (Fin 0) total_value then
            Inr (Some (map (\<lambda>v. mul64 (div64 (fillna0_f64 v) total_value) (Fin 100)) mv))
          else Inr None
        else Inr None)"

section \<open>Tables\<close>

text \<open>
  A pandas frame of numbers: the column labels (tickers) and the rows in their stored
  order, each row with its index label (a date, here its ordinal number) and one cell per
  column. \<open>DataFrame.empty\<close> holds when the frame has no row or no column, and
  \<open>pd.DataFrame()\<close> has neither.
\<close>

record DataFrame =
  columns :: "string list"
  rows :: "(nat \<times> fval list) list"

definition empty :: "DataFrame \<Rightarrow> bool" where
  "empty df = (rows df = [] \<or> columns df = [])"


text \<open>Every row has one cell per column.\<close>

definition well_formed :: "DataFrame \<Rightarrow> bool" where
  "well_formed df = list_all (\<lambda>r. length (snd r) = length (columns df)) (rows df)"

definition column :: "DataFrame \<Rightarrow> nat \<Rightarrow> fval list" where
  "column df j = map (\<lambda>r. snd r ! j) (rows df)"

section \<open>analytics.py: compute_daily_returns\<close>












section \<open>analytics.py: annualized_volatility\<close>

text \<open>
  \<open>DataFrame.std()\<close> is, per column, the square root of pandas' \<open>nanvar\<close> with
  \<open>ddof = 1\<close>: the missing cells are masked out, a count of at most \<open>ddof\<close> turns the
  count and the divisor into \<open>NaN\<close>, and the variance is computed in two passes.
\<close>

definition nanvar :: "fval list \<Rightarrow> fval" where
  "nanvar vals =
     (let n = length (filter (\<lambda>v. \<not> isna v) vals);
          count = (if n \<le> 1 then NaN else Fin (real n));
          d = (if n \<le> 1 then NaN else Fin (real n - 1));
          values = map (\<lambda>v. if isna v then Fin 0 else v) vals;
          avg = fdiv (fsum values) count;
          sqr = map (\<lambda>v. fmul (fsub avg v) (fsub avg v)) values;
          sqr0 = map2 (\<lambda>v s. if isna v then Fin 0 else s) vals sqr
      in fdiv (fsum sqr0) d)"

definition nanstd :: "fval list \<Rightarrow> fval" where
  "nanstd vals = fsqrt (nanvar vals)"

text \<open>A \<open>Series\<close> indexed by ticker is a list of pairs, in the order of the columns.\<close>

definition std :: "DataFrame \<Rightarrow> (string \<times> fval) list" where
  "std df = map (\<lambda>j. (columns df ! j, nanstd (column df j))) [0..<length (columns df)]"

definition annualized_volatility :: "DataFrame \<Rightarrow> int \<Rightarrow> (string \<times> fval) list" where
  "annualized_volatility returns trading_days =
     (if empty returns then []
      else
        let daily_vol = std returns
        in map (\<lambda>(c, v). (c, fmul v (fsqrt (Fin (real_of_int trading_days))))) daily_vol)"

text \<open>
  The specification's sample standard deviation of \<open>N\<close> observations: the square root
  of the sum of the squared deviations from the mean, divided by \<open>N - 1\<close>.
\<close>

definition sample_std :: "real list \<Rightarrow> real" where
  "sample_std xs =
     (let m = sum_list xs / real (length xs)
      in sqrt (sum_list (map (\<lambda>x. (x - m)\<^sup>2) xs) / (real (length xs) - 1)))"

text \<open>The observations of a column: its cells that are not missing.\<close>

fun observations :: "fval list \<Rightarrow> real list" where
  "observations [] = []"
| "observations (Fin x # vs) = x # observations vs"
| "observations (v # vs) = observations vs"

section \<open>analytics.py: portfolio_volatility\<close>

text \<open>
  \<open>DataFrame.cov()\<close> has two branches. When no cell is missing it calls
  \<open>np.cov(mat.T, ddof=1)\<close>: the columns are centred at their means, multiplied pairwise
  and scaled by \<open>1 / fact\<close>, where \<open>fact = N - 1\<close> is replaced by \<open>0.0\<close> when it is not
  positive.
\<close>

definition np_cov :: "DataFrame \<Rightarrow> fval list list" where
  "np_cov df =
     (let k = length (columns df);
          n = length (rows df);
          avg = map (\<lambda>j. fdiv (fsum (column df j)) (Fin (real n))) [0..<k];
          fact = (if n \<le> 1 then 0 else real n - 1);
          X = map (\<lambda>j. map (\<lambda>v. fsub v (avg ! j)) (column df j)) [0..<k];
          c = map (\<lambda>a. map (\<lambda>b. fsum (map2 fmul a b)) X) X
      in map (map (\<lambda>v. fmul v (fdiv (Fin 1) (Fin fact)))) c)"

text \<open>
  Otherwise it calls \<open>nancorr(mat, cov=True)\<close>: for each pair of columns, one pass of
  Welford's method over the rows in which both cells are finite. Fewer than one such row,
  or a divisor \<open>nobs - 1\<close> of zero, gives \<open>NaN\<close>. The state of the pass is
  \<open>(nobs, meanx, meany, covxy)\<close>; the two sums of squares the loop also keeps are
  used for correlations only. The loop runs for \<open>yi \<le> xi\<close> and mirrors the result.
\<close>

fun welford_step :: "nat \<times> real \<times> real \<times> real \<Rightarrow> fval \<times> fval \<Rightarrow> nat \<times> real \<times> real \<times> real" where
  "welford_step (nobs, meanx, meany, covxy) (Fin vx, Fin vy) =
     (let nobs' = nobs + 1;
          dx = vx - meanx;
          dy = vy - meany;
          meanx' = meanx + 1 / real nobs' * dx;
          meany' = meany + 1 / real nobs' * dy
      in (nobs', meanx', meany', covxy + (vx - meanx') * dy))"
| "welford_step st _ = st"

definition nancorr_pair :: "fval list \<Rightarrow> fval list \<Rightarrow> fval" where
  "nancorr_pair xs ys =
     (case foldl welford_step (0, 0, 0, 0) (zip xs ys) of
        (nobs, meanx, meany, covxy) \<Rightarrow>
          if nobs < 1 then NaN
          else
            let divisor = real nobs - 1
            in if divisor \<noteq> 0 then Fin (covxy / divisor) else NaN)"

definition nancorr :: "DataFrame \<Rightarrow> fval list list" where
  "nancorr df =
     (let k = length (columns df)
      in map (\<lambda>a. map (\<lambda>b. if b \<le> a then nancorr_pair (column df a) (column df b)
                               else nancorr_pair (column df b) (column df a)) [0..<k]) [0..<k])"

definition cov :: "DataFrame \<Rightarrow> fval list list" where
  "cov df =
     (if list_all (\<lambda>r. list_all (\<lambda>v. \<not> isna v) (snd r)) (rows df) then np_cov df
      else nancorr df)"

definition dot :: "fval list \<Rightarrow> fval list \<Rightarrow> fval" where
  "dot u v = fsum (map2 fmul u v)"

definition matvec :: "fval list list \<Rightarrow> fval list \<Rightarrow> fval list" where
  "matvec m v = map (\<lambda>r. dot r v) m"

definition daily_var :: "DataFrame \<Rightarrow> fval list \<Rightarrow> fval" where
  "daily_var returns w = dot w (matvec (cov returns) w)"

text \<open>
  The result is \<open>Inl ValueError\<close> for the \<open>raise\<close>, \<open>Inr None\<close> for \<open>return None\<close>
  and \<open>Inr (Some v)\<close> for a returned float, which may itself be \<open>NaN\<close>.
\<close>

definition portfolio_volatility :: "DataFrame \<Rightarrow> fval list \<Rightarrow> int \<Rightarrow> error + fval option" where
  "portfolio_volatility returns weights trading_days =
     (if empty returns then Inr None
      else
        let w = weights in
        if length (columns returns) \<noteq> length w then Inl ValueError
        else
          let dv = daily_var returns w in
          if flt dv (Fin 0) then Inr None
          else Inr (Some (fmul (fsqrt dv) (fsqrt (Fin (real_of_int trading_days))))))"

section \<open>The methods of Portfolio as operations on memory\<close>

text \<open>
  What a call can change: the portfolio it is called on, and the objects the method
  builds and then changes in place (the list \<open>rows\<close>, filled by \<open>append\<close>, and the frame
  \<open>df\<close>, which gets its column \<open>weight_pct\<close> by assignment).
\<close>

record Memory =
  self :: Portfolio
  loc_rows :: "Row list"
  loc_df :: "AnalyticsFrame option"

definition append_row :: "Position \<Rightarrow> Memory \<Rightarrow> Memory" where
  "append_row p m = m\<lparr>loc_rows := loc_rows m @ [row_of p]\<rparr>"

definition to_dataframe_run :: "Memory \<Rightarrow> (error + AnalyticsFrame) \<times> Memory" where
  "to_dataframe_run m =
     (let m1 = m\<lparr>loc_rows := []\<rparr>;
          m2 = fold append_row (positions (self m1)) m1;
          df = \<lparr>frame_rows = loc_rows m2, weight_pct = None\<rparr>;
          m3 = m2\<lparr>loc_df := Some df\<rparr>
      in if frame_rows df = [] then (Inl KeyError, m3)
         else
           let mv = map row_market_value (frame_rows df) in
           if list_ex (\<lambda>v. v \<noteq> None) mv then
             let total_value = sum_list (map fillna0 mv) in
             if total_value > 0 then
               let df' = df\<lparr>weight_pct := Some (map (\<lambda>v. (fillna0 v / total_value) * 100) mv)\<rparr>
               in (Inr df', m3\<lparr>loc_df := Some df'\<rparr>)
             else (Inr df, m3)
           else (Inr df, m3))"

datatype operation =
  ToDataframe | TotalCostBasis | TotalMarketValue | TotalUnrealizedPl | TotalUnrealizedPlPct

datatype outcome = Frame "error + AnalyticsFrame" | Number real | Optional "real option"

text \<open>The four properties read \<open>self\<close> and build no object that they change.\<close>

fun call :: "operation \<Rightarrow> Memory \<Rightarrow> outcome \<times> Memory" where
  "call ToDataframe m = (case to_dataframe_run m of (r, m') \<Rightarrow> (Frame r, m'))"
| "call TotalCostBasis m = (Number (total_cost_basis (self m)), m)"
| "call TotalMarketValue m = (Optional (total_market_value (self m)), m)"
| "call TotalUnrealizedPl m = (Optional (total_unrealized_pl (self m)), m)"
| "call TotalUnrealizedPlPct m = (Optional (total_unrealized_pl_pct (self m)), m)"

fun calls :: "operation list \<Rightarrow> Memory \<Rightarrow> Memory" where
  "calls [] m = m"
| "calls (c # cs) m = calls cs (snd (call c m))"

section \<open>The specification's names for the weights\<close>

text \<open>
  \<open>total_market_value_used\<close>: the sum of the market values with a missing one counted
  as 0. \<open>weights_of\<close>: each position's share of it, in percent.
\<close>

definition total_market_value_used :: "Portfolio \<Rightarrow> real" where
  "total_market_value_used pf =
     sum_list (map (\<lambda>p. case market_value p of None \<Rightarrow> 0 | Some v \<Rightarrow> v) (positions pf))"

definition weights_of :: "Portfolio \<Rightarrow> real list" where
  "weights_of pf =
     map (\<lambda>p. ((case market_value p of None \<Rightarrow> 0 | Some v \<Rightarrow> v) / total_market_value_used pf) * 100)
       (positions pf)"

section \<open>Conditions on tables\<close>


text \<open>Every cell of the column is a number or missing: none is an infinity.\<close>

definition no_infinity :: "fval list \<Rightarrow> bool" where
  "no_infinity vals = list_all (\<lambda>v. isna v \<or> isfinite v) vals"

section \<open>The specification's sample covariance\<close>

text \<open>
  For a table whose cells are all numbers: \<open>fin_val\<close> reads the number of a cell,
  \<open>centered\<close> is a column minus its mean, and \<open>sample_cov\<close> is the sum of the
  products of two centred columns divided by \<open>N - 1\<close>.
\<close>

fun fin_val :: "fval \<Rightarrow> real" where
  "fin_val (Fin x) = x"
| "fin_val _ = 0"

definition all_finite :: "DataFrame \<Rightarrow> bool" where
  "all_finite df = list_all (\<lambda>r. list_all isfinite (snd r)) (rows df)"

definition centered :: "DataFrame \<Rightarrow> nat \<Rightarrow> real list" where
  "centered df j =
     (let c = map fin_val (column df j);
          m = sum_list c / real (length c)
      in map (\<lambda>x. x - m) c)"

definition sample_cov :: "DataFrame \<Rightarrow> nat \<Rightarrow> nat \<Rightarrow> real" where
  "sample_cov df a b =
     sum_list (map2 (*) (centered df a) (centered df b)) / (real (length (rows df)) - 1)"

section \<open>Example data\<close>

definition pos_priced :: Position where
  "pos_priced =
     \<lparr>ticker = ''AAA'', quantity = 10, avg_cost = 100, latest_price = Some 110, sector = None\<rparr>"

definition pos_bbb :: Position where
  "pos_bbb =
     \<lparr>ticker = ''BBB'', quantity = 5, avg_cost = 200, latest_price = Some 180, sector = None\<rparr>"

definition pos_unpriced :: Position where
  "pos_unpriced =
     \<lparr>ticker = ''BBB'', quantity = 5, avg_cost = 200, latest_price = None, sector = None\<rparr>"

definition pos_free :: Position where
  "pos_free =
     \<lparr>ticker = ''CCC'', quantity = 3, avg_cost = 0, latest_price = Some 7, sector = None\<rparr>"

definition pos_short :: Position where
  "pos_short =
     \<lparr>ticker = ''DDD'', quantity = - 2, avg_cost = 50, latest_price = Some 40, sector = None\<rparr>"








text \<open>Return tables: without rows, complete, with two rows only, and with gaps.\<close>

definition returns_no_rows :: DataFrame where
  "returns_no_rows = \<lparr>columns = [''AAA'', ''BBB''], rows = []\<rparr>"

definition returns_example :: DataFrame where
  "returns_example =
     \<lparr>columns = [''AAA'', ''BBB''],
      rows = [(1, [Fin (1 / 100), Fin (- 1 / 50)]),
              (2, [Fin (1 / 101), Fin (2 / 49)]),
              (3, [Fin (1 / 102), Fin (1 / 51)])]\<rparr>"

definition returns_gaps :: DataFrame where
  "returns_gaps =
     \<lparr>columns = [''AAA'', ''BBB''],
      rows = [(1, [Fin 0, Fin 0]),
              (2, [Fin (1 / 10), Fin (1 / 10)]),
              (3, [Fin (1 / 20), NaN]),
              (4, [NaN, Fin (1 / 20)])]\<rparr>"

definition returns_two :: DataFrame where
  "returns_two =
     \<lparr>columns = [''AAA'', ''BBB''],
      rows = [(1, [Fin (1 / 100), NaN]),
              (2, [Fin (3 / 100), Fin (1 / 50)])]\<rparr>"

section \<open>Properties\<close>

lemma py_sum_sum_list: "py_sum xs = sum_list xs"
proof -
  have "foldl (+) a xs = a + sum_list xs" for a :: real
    by (induction xs arbitrary: a) simp_all
  then show ?thesis by (simp add: py_sum_def)
qed

subsection \<open>Position\<close>

text \<open>
  C1. For every position, \<open>cost_basis\<close> is \<open>quantity * avg_cost\<close>. With a latest price,
  \<open>market_value\<close> is \<open>quantity * latest_price\<close> and \<open>unrealized_pl\<close> is the market value
  minus the cost basis; without one, both are undefined (\<open>None\<close>, which is not the number
  0). \<open>unrealized_pl_pct\<close> is undefined exactly when the cost basis is zero or
  \<open>unrealized_pl\<close> is undefined, and is \<open>unrealized_pl / cost_basis * 100\<close> otherwise.
\<close>

theorem position_derived_fields:
  "cost_basis p = quantity p * avg_cost p
   \<and> (\<forall>price. latest_price p = Some price \<longrightarrow>
          market_value p = Some (quantity p * price)
        \<and> unrealized_pl p = Some (quantity p * price - cost_basis p))
   \<and> (latest_price p = None \<longrightarrow> market_value p = None \<and> unrealized_pl p = None)
   \<and> (unrealized_pl_pct p = None \<longleftrightarrow> cost_basis p = 0 \<or> unrealized_pl p = None)
   \<and> (\<forall>u. unrealized_pl p = Some u \<longrightarrow> cost_basis p \<noteq> 0 \<longrightarrow>
          unrealized_pl_pct p = Some (u / cost_basis p * 100))"
  by (auto simp: cost_basis_def market_value_def unrealized_pl_def unrealized_pl_pct_def split: option.splits)

theorem position_derived_fields_witness:
  "latest_price pos_priced = Some 110
   \<and> cost_basis pos_priced = 1000
   \<and> market_value pos_priced = Some 1100
   \<and> unrealized_pl pos_priced = Some 100
   \<and> unrealized_pl_pct pos_priced = Some 10
   \<and> latest_price pos_unpriced = None
   \<and> market_value pos_unpriced = None
   \<and> unrealized_pl pos_unpriced = None
   \<and> unrealized_pl_pct pos_unpriced = None
   \<and> cost_basis pos_free = 0
   \<and> unrealized_pl pos_free = Some 21
   \<and> unrealized_pl_pct pos_free = None"
proof -
  have a: "latest_price pos_priced = Some 110" "quantity pos_priced = 10" "avg_cost pos_priced = 100"
    by (simp_all add: pos_priced_def)
  have b: "latest_price pos_unpriced = None"
    by (simp add: pos_unpriced_def)
  have c: "latest_price pos_free = Some 7" "quantity pos_free = 3" "avg_cost pos_free = 0"
    by (simp_all add: pos_free_def)
  show ?thesis
    using position_derived_fields [of pos_priced] position_derived_fields [of pos_unpriced]
      position_derived_fields [of pos_free] a b c
    by simp
qed

subsection \<open>Totals\<close>

lemma sum_list_defined:
  "sum_list (map (\<lambda>p. the (market_value p)) (filter (\<lambda>p. market_value p \<noteq> None) ps))
   = sum_list (map (\<lambda>p. case market_value p of None \<Rightarrow> 0 | Some v \<Rightarrow> v) ps)"
  by (induction ps) auto

lemma no_defined_value:
  "(filter (\<lambda>p. market_value p \<noteq> None) ps = []) = list_all (\<lambda>p. market_value p = None) ps"
  by (induction ps) auto

text \<open>
  C2. For every portfolio, \<open>total_cost_basis\<close> is the sum of the cost bases of its
  positions, 0 for the empty portfolio. \<open>total_market_value\<close> is undefined exactly when
  no position has a market value; otherwise it is the sum of the market values that are
  defined, that is, the sum in which a position without a price counts as 0.
\<close>

theorem portfolio_totals:
  "total_cost_basis pf = sum_list (map cost_basis (positions pf))
   \<and> (positions pf = [] \<longrightarrow> total_cost_basis pf = 0)
   \<and> (total_market_value pf = None \<longleftrightarrow> list_all (\<lambda>p. market_value p = None) (positions pf))
   \<and> (\<not> list_all (\<lambda>p. market_value p = None) (positions pf) \<longrightarrow>
        total_market_value pf
        = Some (sum_list (map (\<lambda>p. case market_value p of None \<Rightarrow> 0 | Some v \<Rightarrow> v) (positions pf))))"
proof -
  let ?ps = "positions pf"
  let ?defined = "filter (\<lambda>p. market_value p \<noteq> None) ?ps"
  have e: "(?defined = []) = list_all (\<lambda>p. market_value p = None) ?ps"
    by (rule no_defined_value)
  have c: "total_cost_basis pf = sum_list (map cost_basis ?ps)"
    by (simp add: total_cost_basis_def py_sum_sum_list)
  have n: "total_market_value pf = None \<longleftrightarrow> ?defined = []"
    unfolding total_market_value_def Let_def by simp
  have s: "?defined \<noteq> [] \<Longrightarrow> total_market_value pf
      = Some (sum_list (map (\<lambda>p. case market_value p of None \<Rightarrow> 0 | Some v \<Rightarrow> v) ?ps))"
    unfolding total_market_value_def Let_def py_sum_sum_list sum_list_defined by simp
  from c n s e show ?thesis by simp
qed

theorem portfolio_totals_witness:
  "total_cost_basis \<lparr>positions = [pos_priced, pos_unpriced]\<rparr> = 2000
   \<and> total_market_value \<lparr>positions = [pos_priced, pos_unpriced]\<rparr> = Some 1100
   \<and> total_cost_basis \<lparr>positions = []\<rparr> = 0
   \<and> total_market_value \<lparr>positions = [pos_unpriced]\<rparr> = None"
  using portfolio_totals [of "\<lparr>positions = [pos_priced, pos_unpriced]\<rparr>"]
    portfolio_totals [of "\<lparr>positions = []\<rparr>"]
    portfolio_totals [of "\<lparr>positions = [pos_unpriced]\<rparr>"]
  by (simp add: pos_priced_def pos_unpriced_def cost_basis_def market_value_def)

subsection \<open>Weights\<close>

lemma no_value_total_zero:
  "\<not> list_ex (\<lambda>p. market_value p \<noteq> None) ps \<Longrightarrow>
   sum_list (map (\<lambda>p. case market_value p of None \<Rightarrow> 0 | Some v \<Rightarrow> v) ps) = 0"
  by (induction ps) auto

lemma to_dataframe_nonempty:
  assumes "positions pf \<noteq> []"
  shows "to_dataframe pf =
     Inr \<lparr>frame_rows = map row_of (positions pf),
          weight_pct = (if 0 < total_market_value_used pf then Some (weights_of pf) else None)\<rparr>"
proof (cases "list_ex (\<lambda>p. market_value p \<noteq> None) (positions pf)")
  case True
  then have "list_ex (\<lambda>v. v \<noteq> None) (map row_market_value (map row_of (positions pf)))"
    by (simp add: list_ex_iff row_of_def)
  with assms show ?thesis
    by (simp add: to_dataframe_def Let_def total_market_value_used_def weights_of_def row_of_def
        comp_def fillna0_def)
next
  case False
  then have z: "total_market_value_used pf = 0"
    unfolding total_market_value_used_def by (rule no_value_total_zero)
  from False have "\<not> list_ex (\<lambda>v. v \<noteq> None) (map row_market_value (map row_of (positions pf)))"
    by (simp add: list_ex_iff row_of_def)
  with assms z show ?thesis
    by (simp add: to_dataframe_def Let_def)
qed



lemma total_market_value_used_examples:
  "total_market_value_used \<lparr>positions = [pos_priced, pos_bbb]\<rparr> = 2000"
  "total_market_value_used \<lparr>positions = [pos_short]\<rparr> = - 80"
  "total_market_value_used \<lparr>positions = [pos_priced, pos_unpriced]\<rparr> = 1100"
  by (simp_all add: total_market_value_used_def pos_priced_def pos_bbb_def pos_short_def pos_unpriced_def
      market_value_def fillna0_def)

lemma market_value_examples:
  "market_value pos_priced = Some 1100" "market_value pos_bbb = Some 900"
  "market_value pos_short = Some (- 80)" "market_value pos_unpriced = None"
  by (simp_all add: pos_priced_def pos_bbb_def pos_short_def pos_unpriced_def market_value_def)



text \<open>
  C9. Whenever \<open>to_dataframe\<close> returns a frame with the column \<open>weight_pct\<close>, the column
  has one entry per position and the entry of every position without a latest price is
  the number 0.
\<close>

theorem missing_price_weight_zero:
  assumes "to_dataframe pf = Inr df" and "weight_pct df = Some ws"
    and "i < length (positions pf)" and "latest_price (positions pf ! i) = None"
  shows "length ws = length (positions pf) \<and> ws ! i = 0"
proof -
  from assms(1) have ne: "positions pf \<noteq> []"
    by (auto simp: to_dataframe_def)
  from assms(1,2) ne have ws: "ws = weights_of pf"
    by (auto simp: to_dataframe_nonempty split: if_splits)
  from assms(4) have "market_value (positions pf ! i) = None"
    by (simp add: market_value_def)
  with assms(3) ws show ?thesis
    by (simp add: weights_of_def fillna0_def)
qed

theorem missing_price_weight_zero_witness:
  "to_dataframe \<lparr>positions = [pos_priced, pos_unpriced]\<rparr>
     = Inr \<lparr>frame_rows = [row_of pos_priced, row_of pos_unpriced], weight_pct = Some [100, 0]\<rparr>
   \<and> latest_price ([pos_priced, pos_unpriced] ! 1) = None
   \<and> length [100, 0 :: real] = length (positions \<lparr>positions = [pos_priced, pos_unpriced]\<rparr>)
   \<and> [100, 0 :: real] ! 1 = 0"
proof -
  let ?pf = "\<lparr>positions = [pos_priced, pos_unpriced]\<rparr>"
  let ?df = "\<lparr>frame_rows = [row_of pos_priced, row_of pos_unpriced], weight_pct = Some [100, 0]\<rparr>"
  have d: "to_dataframe ?pf = Inr ?df"
    by (simp add: to_dataframe_nonempty total_market_value_used_examples weights_of_def
        market_value_examples fillna0_def)
  have w: "weight_pct ?df = Some [100, 0]" by simp
  have i: "1 < length (positions ?pf)" by simp
  have l: "latest_price (positions ?pf ! 1) = None" by (simp add: pos_unpriced_def)
  from missing_price_weight_zero [OF d w i l] d l show ?thesis by simp
qed

subsection \<open>Weights in float64\<close>

lemma floor_log2:
  assumes "2 powr real_of_int k \<le> x" and "x < 2 powr real_of_int (k + 1)"
  shows "\<lfloor>log 2 x\<rfloor> = k"
proof -
  have "0 < 2 powr real_of_int k" by simp
  with assms(1) have x: "0 < x" by linarith
  from assms(1) x have "real_of_int k \<le> log 2 x" by (simp add: le_log_iff)
  moreover from assms(2) x have "log 2 x < real_of_int (k + 1)" by (simp add: log_less_iff)
  ultimately show ?thesis by (simp add: floor_unique)
qed

lemma round64_eval:
  assumes "x \<noteq> 0"
    and "2 powr real_of_int k \<le> \<bar>x\<bar>" and "\<bar>x\<bar> < 2 powr real_of_int (k + 1)"
    and "e = max (k - 52) (- 1074)"
    and "round_half_even (x / 2 powr real_of_int e) = m"
    and "\<bar>real_of_int m * 2 powr real_of_int e\<bar> < 2 ^ 1024"
  shows "round64 x = Fin (real_of_int m * 2 powr real_of_int e)"
proof -
  have "\<lfloor>log 2 \<bar>x\<bar>\<rfloor> = k" using assms(2,3) by (rule floor_log2)
  with assms(1,4,5,6) show ?thesis
    by (simp add: round64_def Let_def)
qed
























lemma round64_055: "round64 (11 / 20) = Fin (4953959590107546 / 2 ^ 53)"
proof -
  have "round64 (11 / 20) = Fin (real_of_int 4953959590107546 * 2 powr real_of_int (- 53))"
    by (rule round64_eval [where k = "- 1"]) (simp_all add: round_half_even_def Let_def powr_minus_divide)
  then show ?thesis by (simp add: powr_minus_divide)
qed


lemma round64_1100: "round64 1100 = Fin 1100"
proof -
  have "round64 1100 = Fin (real_of_int 4837851162214400 * 2 powr real_of_int (- 42))"
    by (rule round64_eval [where k = 10]) (simp_all add: round_half_even_def Let_def powr_minus_divide)
  then show ?thesis by (simp add: powr_minus_divide)
qed

lemma round64_900: "round64 900 = Fin 900"
proof -
  have "round64 900 = Fin (real_of_int 7916483719987200 * 2 powr real_of_int (- 43))"
    by (rule round64_eval [where k = 9]) (simp_all add: round_half_even_def Let_def powr_minus_divide)
  then show ?thesis by (simp add: powr_minus_divide)
qed

lemma round64_2000: "round64 2000 = Fin 2000"
proof -
  have "round64 2000 = Fin (real_of_int 8796093022208000 * 2 powr real_of_int (- 42))"
    by (rule round64_eval [where k = 10]) (simp_all add: round_half_even_def Let_def powr_minus_divide)
  then show ?thesis by (simp add: powr_minus_divide)
qed

lemma round64_045: "round64 (9 / 20) = Fin (8106479329266893 / 2 ^ 54)"
proof -
  have "round64 (9 / 20) = Fin (real_of_int 8106479329266893 * 2 powr real_of_int (- 54))"
    by (rule round64_eval [where k = "- 2"]) (simp_all add: round_half_even_def Let_def powr_minus_divide)
  then show ?thesis by (simp add: powr_minus_divide)
qed

lemma round64_55: "round64 (4953959590107546 / 2 ^ 53 * 100) = Fin (55 + 1 / 2 ^ 47)"
proof -
  have "round64 (4953959590107546 / 2 ^ 53 * 100)
      = Fin (real_of_int 7740561859543041 * 2 powr real_of_int (- 47))"
    by (rule round64_eval [where k = 5]) (simp_all add: round_half_even_def Let_def powr_minus_divide)
  then show ?thesis by (simp add: powr_minus_divide)
qed

lemma round64_45: "round64 (8106479329266893 / 2 ^ 54 * 100) = Fin 45"
proof -
  have "round64 (8106479329266893 / 2 ^ 54 * 100)
      = Fin (real_of_int 6333186975989760 * 2 powr real_of_int (- 47))"
    by (rule round64_eval [where k = 5]) (simp_all add: round_half_even_def Let_def powr_minus_divide)
  then show ?thesis by (simp add: powr_minus_divide)
qed

text \<open>
  The two positions of \<open>test_portfolio_basic_pl_and_weights\<close> in float64: the weights
  are \<open>55 + 2^-47\<close>, which prints as 55.00000000000001, and 45.
\<close>

theorem weight_pct_f64_scenario:
  "weight_pct_f64 \<lparr>positions = [pos_priced, pos_bbb]\<rparr>
   = Inr (Some [Fin (55 + 1 / 2 ^ 47), Fin 45])"
proof -
  have mv: "market_value_f64 pos_priced = Some (Fin 1100)" "market_value_f64 pos_bbb = Some (Fin 900)"
    by (simp_all add: market_value_f64_def pos_priced_def pos_bbb_def mul64_def round64_1100 round64_900)
  have t: "sum64 [Fin 1100, Fin 900] = Fin 2000"
    by (simp add: sum64_def add64_def round64_1100 round64_2000)
  have w: "mul64 (div64 (Fin 1100) (Fin 2000)) (Fin 100) = Fin (55 + 1 / 2 ^ 47)"
    "mul64 (div64 (Fin 900) (Fin 2000)) (Fin 100) = Fin 45"
    using round64_055 round64_045 round64_55 round64_45
    by (simp_all add: div64_def mul64_def)
  show ?thesis
    by (simp add: weight_pct_f64_def Let_def mv notna_def fillna0_f64_def t w)
qed

subsection \<open>The empty portfolio\<close>

text \<open>
  C4. For the portfolio without positions the two totals are as the specification says,
  \<open>total_cost_basis\<close> is 0 and \<open>total_market_value\<close> is undefined, but \<open>to_dataframe\<close>
  does not return a frame: it raises \<open>KeyError\<close>.
\<close>

theorem empty_portfolio_raises:
  "to_dataframe \<lparr>positions = []\<rparr> = Inl KeyError
   \<and> total_cost_basis \<lparr>positions = []\<rparr> = 0
   \<and> total_market_value \<lparr>positions = []\<rparr> = None"
  by (simp add: to_dataframe_def total_cost_basis_def total_market_value_def py_sum_def)

subsection \<open>Frame\<close>

lemma fold_append_row:
  "fold append_row ps m = m\<lparr>loc_rows := loc_rows m @ map row_of ps\<rparr>"
  by (induction ps arbitrary: m) (simp_all add: append_row_def)

lemma to_dataframe_run_self: "self (snd (to_dataframe_run m)) = self m"
  by (simp add: to_dataframe_run_def Let_def fold_append_row)

lemma to_dataframe_run_result: "fst (to_dataframe_run m) = to_dataframe (self m)"
  by (simp add: to_dataframe_run_def to_dataframe_def Let_def fold_append_row)

lemma call_self: "self (snd (call c m)) = self m"
  using to_dataframe_run_self [of m] by (cases c) (auto split: prod.splits)

text \<open>
  C10. No operation changes the portfolio: after a call of \<open>to_dataframe\<close> or of one of
  the four totals, and after any sequence of such calls, the portfolio in memory (its list
  of positions with all their fields) is what it was before. The result of
  \<open>to_dataframe\<close> run on memory is the one of the function above.
\<close>

theorem portfolio_not_mutated:
  "self (snd (call c m)) = self m
   \<and> self (calls cs m) = self m
   \<and> fst (call ToDataframe m) = Frame (to_dataframe (self m))"
proof -
  have "self (calls cs m) = self m"
    by (induction cs arbitrary: m) (simp_all add: call_self)
  moreover have "fst (call ToDataframe m) = Frame (to_dataframe (self m))"
    using to_dataframe_run_result [of m] by (auto split: prod.splits)
  ultimately show ?thesis by (simp add: call_self)
qed

subsection \<open>Daily returns\<close>


































subsection \<open>Annualized volatility\<close>

lemma count_observations:
  "no_infinity vals \<Longrightarrow> length (filter (\<lambda>v. \<not> isna v) vals) = length (observations vals)"
proof (induction vals)
  case Nil
  then show ?case by simp
next
  case (Cons v vals)
  then show ?case by (cases v) (simp_all add: no_infinity_def)
qed

lemma fsum_Cons: "fsum (v # vs) = fadd v (fsum vs)"
  by (simp add: fsum_def)

lemma fsum_Nil: "fsum [] = Fin 0"
  by (simp add: fsum_def)

lemma fsum_masked:
  "no_infinity vals \<Longrightarrow>
   fsum (map (\<lambda>v. if isna v then Fin 0 else v) vals) = Fin (sum_list (observations vals))"
proof (induction vals)
  case Nil
  then show ?case by (simp add: fsum_Nil)
next
  case (Cons v vals)
  then show ?case by (cases v) (simp_all add: no_infinity_def fsum_Cons)
qed

lemma fsum_squares:
  "no_infinity vals \<Longrightarrow>
   fsum (map2 (\<lambda>v s. if isna v then Fin 0 else s) vals
          (map (\<lambda>v. fmul (fsub (Fin m) v) (fsub (Fin m) v))
               (map (\<lambda>v. if isna v then Fin 0 else v) vals)))
   = Fin (sum_list (map (\<lambda>x. (x - m)\<^sup>2) (observations vals)))"
proof (induction vals)
  case Nil
  then show ?case by (simp add: fsum_Nil)
next
  case (Cons v vals)
  then show ?case
    by (cases v) (simp_all add: no_infinity_def fsum_Cons fsub_def power2_eq_square algebra_simps)
qed

lemma nanvar_observations:
  assumes "no_infinity vals" and "2 \<le> length (observations vals)"
  shows "nanvar vals =
     Fin (sum_list (map (\<lambda>x. (x - sum_list (observations vals) / real (length (observations vals)))\<^sup>2)
                     (observations vals))
          / (real (length (observations vals)) - 1))"
proof -
  let ?n = "length (observations vals)"
  have n: "length (filter (\<lambda>v. \<not> isna v) vals) = ?n"
    using assms(1) by (rule count_observations)
  have ne: "observations vals \<noteq> []"
    using assms(2) by auto
  have avg: "fdiv (fsum (map (\<lambda>v. if isna v then Fin 0 else v) vals)) (Fin (real ?n))
      = Fin (sum_list (observations vals) / real ?n)"
    using assms(1) ne by (simp add: fsum_masked)
  have d: "real ?n - 1 \<noteq> 0" using assms(2) by simp
  have cnt: "(if ?n \<le> 1 then NaN else Fin (real ?n)) = Fin (real ?n)"
    "(if ?n \<le> 1 then NaN else Fin (real ?n - 1)) = Fin (real ?n - 1)"
    using assms(2) by simp_all
  have "nanvar vals =
      fdiv (fsum (map2 (\<lambda>v s. if isna v then Fin 0 else s) vals
                   (map (\<lambda>v. fmul (fsub (Fin (sum_list (observations vals) / real ?n)) v)
                                  (fsub (Fin (sum_list (observations vals) / real ?n)) v))
                        (map (\<lambda>v. if isna v then Fin 0 else v) vals))))
           (Fin (real ?n - 1))"
    unfolding nanvar_def Let_def n cnt avg by (rule refl)
  also have "\<dots> = fdiv (Fin (sum_list (map (\<lambda>x. (x - sum_list (observations vals) / real ?n)\<^sup>2)
                                       (observations vals))))
                       (Fin (real ?n - 1))"
    using assms(1) by (simp only: fsum_squares)
  finally show ?thesis using d by simp
qed

lemma nanstd_observations:
  assumes "no_infinity vals" and "2 \<le> length (observations vals)"
  shows "nanstd vals = Fin (sample_std (observations vals))"
proof -
  let ?obs = "observations vals"
  let ?m = "sum_list ?obs / real (length ?obs)"
  have "0 \<le> sum_list (map (\<lambda>x. (x - ?m)\<^sup>2) ?obs)"
    by (rule sum_list_nonneg) auto
  moreover have "0 < real (length ?obs) - 1" using assms(2) by simp
  ultimately have "0 \<le> sum_list (map (\<lambda>x. (x - ?m)\<^sup>2) ?obs) / (real (length ?obs) - 1)"
    by simp
  then show ?thesis
    using assms by (simp add: nanstd_def nanvar_observations sample_std_def Let_def)
qed

lemma nanstd_few:
  assumes "no_infinity vals" and "length (observations vals) < 2"
  shows "nanstd vals = NaN"
proof -
  have "length (filter (\<lambda>v. \<not> isna v) vals) \<le> 1"
    using assms by (simp add: count_observations)
  then show ?thesis
    by (simp add: nanstd_def nanvar_def Let_def)
qed

lemma std_nth:
  "j < length (columns df) \<Longrightarrow> std df ! j = (columns df ! j, nanstd (column df j))"
  by (simp add: std_def)

lemma annualized_volatility_nth:
  assumes "\<not> empty r" and "j < length (columns r)"
  shows "annualized_volatility r td ! j
     = (columns r ! j, fmul (nanstd (column r j)) (fsqrt (Fin (real_of_int td))))"
  using assms by (simp add: annualized_volatility_def std_def)

lemma annualized_volatility_keys:
  "\<not> empty r \<Longrightarrow> map fst (annualized_volatility r td) = columns r"
  by (simp add: annualized_volatility_def std_def comp_def case_prod_beta map_nth)

text \<open>
  C7. For an empty return table \<open>annualized_volatility\<close> is the empty mapping. Otherwise
  it has one entry per ticker, in the order of the columns, and for a column without
  infinities and a non-negative number of trading days the entry is the sample standard
  deviation of the column's observations (the sum of the squared deviations from their
  mean divided by \<open>N - 1\<close>, under the square root) times the square root of
  \<open>trading_days\<close>. The entry is a number as soon as the column has 2 observations, and
  \<open>NaN\<close> with fewer.
\<close>

theorem annualized_volatility_sample_std:
  "(empty r \<longrightarrow> annualized_volatility r td = [])
   \<and> (\<not> empty r \<longrightarrow>
        map fst (annualized_volatility r td) = columns r
      \<and> (\<forall>j < length (columns r). no_infinity (column r j) \<longrightarrow> 0 \<le> td \<longrightarrow>
           snd (annualized_volatility r td ! j)
           = (if 2 \<le> length (observations (column r j))
              then Fin (sample_std (observations (column r j)) * sqrt (real_of_int td))
              else NaN)))"
proof (intro conjI impI allI)
  assume "empty r"
  then show "annualized_volatility r td = []" by (simp add: annualized_volatility_def)
next
  assume "\<not> empty r"
  then show "map fst (annualized_volatility r td) = columns r"
    by (rule annualized_volatility_keys)
next
  fix j
  assume ne: "\<not> empty r" and j: "j < length (columns r)"
    and fin: "no_infinity (column r j)" and td: "0 \<le> td"
  show "snd (annualized_volatility r td ! j)
      = (if 2 \<le> length (observations (column r j))
         then Fin (sample_std (observations (column r j)) * sqrt (real_of_int td))
         else NaN)"
  proof (cases "2 \<le> length (observations (column r j))")
    case True
    with ne j fin td show ?thesis
      by (simp add: annualized_volatility_nth nanstd_observations)
  next
    case False
    then have "length (observations (column r j)) < 2" by simp
    with fin have "nanstd (column r j) = NaN" by (rule nanstd_few)
    with ne j False show ?thesis
      by (simp add: annualized_volatility_nth)
  qed
qed

theorem annualized_volatility_sample_std_witness:
  "empty returns_no_rows
   \<and> annualized_volatility returns_no_rows 252 = []
   \<and> \<not> empty returns_two
   \<and> map fst (annualized_volatility returns_two 4) = [''AAA'', ''BBB'']
   \<and> observations (column returns_two 0) = [1 / 100, 3 / 100]
   \<and> snd (annualized_volatility returns_two 4 ! 0) = Fin (sample_std [1 / 100, 3 / 100] * 2)
   \<and> observations (column returns_two 1) = [1 / 50]
   \<and> snd (annualized_volatility returns_two 4 ! 1) = NaN"
proof -
  have e: "empty returns_no_rows" "\<not> empty returns_two"
    by (simp_all add: returns_no_rows_def returns_two_def empty_def)
  have c: "column returns_two 0 = [Fin (1 / 100), Fin (3 / 100)]"
    "column returns_two 1 = [NaN, Fin (1 / 50)]" "columns returns_two = [''AAA'', ''BBB'']"
    "column returns_two (Suc 0) = [NaN, Fin (1 / 50)]"
    by (simp_all add: returns_two_def column_def)
  have s: "sqrt (real_of_int 4) = 2" by simp
  have n: "no_infinity (column returns_two 0)" "no_infinity (column returns_two 1)"
    by (simp_all add: c no_infinity_def)
  have j: "0 < length (columns returns_two)" "1 < length (columns returns_two)"
    by (simp_all add: c)
  note t = annualized_volatility_sample_std [of returns_two 4]
  from t e(2) have keys: "map fst (annualized_volatility returns_two 4) = columns returns_two"
    by simp
  from t e(2) j(1) n(1)
  have v0: "snd (annualized_volatility returns_two 4 ! 0)
      = (if 2 \<le> length (observations (column returns_two 0))
         then Fin (sample_std (observations (column returns_two 0)) * sqrt (real_of_int 4))
         else NaN)"
    by simp
  from t e(2) j(2) n(2)
  have v1: "snd (annualized_volatility returns_two 4 ! 1)
      = (if 2 \<le> length (observations (column returns_two 1))
         then Fin (sample_std (observations (column returns_two 1)) * sqrt (real_of_int 4))
         else NaN)"
    by simp
  from annualized_volatility_sample_std [of returns_no_rows 252] e(1)
  have "annualized_volatility returns_no_rows 252 = []" by simp
  with e keys v0 v1 show ?thesis
    by (simp add: c)
qed

subsection \<open>Portfolio volatility\<close>

lemma upt_2: "[0..<2] = [0, 1]"
  by (simp add: upt_rec)

lemma cov_returns_gaps:
  "cov returns_gaps = [[Fin (1 / 400), Fin (1 / 200)], [Fin (1 / 200), Fin (1 / 400)]]"
  by (simp add: cov_def nancorr_def returns_gaps_def nancorr_pair_def column_def upt_2 Let_def)

lemma daily_var_returns_gaps: "daily_var returns_gaps [Fin 1, Fin (- 1)] = Fin (- 1 / 200)"
  by (simp add: daily_var_def cov_returns_gaps matvec_def dot_def fsum_def)

text \<open>
  C5, as the code has it. \<open>portfolio_volatility\<close> raises \<open>ValueError\<close> (the
  specification's \<open>DimensionMismatchError\<close>) exactly when the return table is not empty
  and the number of weights differs from the number of its columns. For an empty table
  it returns \<open>None\<close> whatever the weights are, since the test for emptiness comes first.
\<close>

theorem dimension_mismatch_raises:
  "(portfolio_volatility returns weights trading_days = Inl ValueError
      \<longleftrightarrow> \<not> empty returns \<and> length weights \<noteq> length (columns returns))
   \<and> (empty returns \<longrightarrow> portfolio_volatility returns weights trading_days = Inr None)"
  by (auto simp: portfolio_volatility_def Let_def)

theorem dimension_mismatch_raises_witness:
  "\<not> empty returns_example
   \<and> length (columns returns_example) = 2
   \<and> portfolio_volatility returns_example [Fin 1, Fin 1, Fin 1] 252 = Inl ValueError
   \<and> empty returns_no_rows
   \<and> portfolio_volatility returns_no_rows [Fin 1, Fin 1, Fin 1] 252 = Inr None"
  using dimension_mismatch_raises [of returns_example "[Fin 1, Fin 1, Fin 1]" 252]
    dimension_mismatch_raises [of returns_no_rows "[Fin 1, Fin 1, Fin 1]" 252]
  by (simp add: returns_example_def returns_no_rows_def empty_def)

text \<open>
  C5, counterexample to the statement for every table: a table with two columns and no
  row, with three weights, gives \<open>None\<close> and no error.
\<close>

theorem dimension_check_counterexample:
  "length [Fin 1, Fin 1, Fin 1] \<noteq> length (columns returns_no_rows)
   \<and> length (columns returns_no_rows) = 2
   \<and> portfolio_volatility returns_no_rows [Fin 1, Fin 1, Fin 1] 252 = Inr None
   \<and> portfolio_volatility returns_no_rows [Fin 1, Fin 1, Fin 1] 252 \<noteq> Inl ValueError"
  by (simp add: portfolio_volatility_def returns_no_rows_def empty_def)

text \<open>
  C8. For a return table that is not empty and as many weights as columns, a negative
  daily variance makes \<open>portfolio_volatility\<close> return \<open>None\<close>: it neither raises nor
  returns a number. An empty table gives \<open>None\<close> as well. Whenever a number is
  returned the variance was not negative, and the number is the product of the two square
  roots.
\<close>

theorem negative_variance_undefined:
  "(\<not> empty returns \<and> length weights = length (columns returns)
      \<and> flt (daily_var returns weights) (Fin 0)
      \<longrightarrow> portfolio_volatility returns weights trading_days = Inr None)
   \<and> (empty returns \<longrightarrow> portfolio_volatility returns weights trading_days = Inr None)
   \<and> (\<forall>v. portfolio_volatility returns weights trading_days = Inr (Some v)
          \<longrightarrow> \<not> flt (daily_var returns weights) (Fin 0)
            \<and> v = fmul (fsqrt (daily_var returns weights)) (fsqrt (Fin (real_of_int trading_days))))"
  by (auto simp: portfolio_volatility_def Let_def split: if_splits)

theorem negative_variance_undefined_witness:
  "\<not> empty returns_gaps
   \<and> length [Fin 1, Fin (- 1)] = length (columns returns_gaps)
   \<and> daily_var returns_gaps [Fin 1, Fin (- 1)] = Fin (- 1 / 200)
   \<and> flt (daily_var returns_gaps [Fin 1, Fin (- 1)]) (Fin 0)
   \<and> portfolio_volatility returns_gaps [Fin 1, Fin (- 1)] 252 = Inr None
   \<and> empty returns_no_rows
   \<and> portfolio_volatility returns_no_rows [Fin 1, Fin (- 1)] 252 = Inr None"
proof -
  have a: "\<not> empty returns_gaps" "length [Fin 1, Fin (- 1)] = length (columns returns_gaps)"
    by (simp_all add: returns_gaps_def empty_def)
  have b: "flt (daily_var returns_gaps [Fin 1, Fin (- 1)]) (Fin 0)"
    by (simp add: daily_var_returns_gaps)
  have c: "empty returns_no_rows"
    by (simp add: returns_no_rows_def empty_def)
  show ?thesis
    using negative_variance_undefined [of returns_gaps "[Fin 1, Fin (- 1)]" 252]
      negative_variance_undefined [of returns_no_rows "[Fin 1, Fin (- 1)]" 252]
      a b c daily_var_returns_gaps
    by simp
qed

subsection \<open>Further properties of the valuation\<close>

text \<open>
  A position bought at an average cost of zero has no \<open>unrealized_pl_pct\<close>, whatever
  its other fields are.
\<close>

theorem zero_avg_cost_pct_undefined: "avg_cost p = 0 \<Longrightarrow> unrealized_pl_pct p = None"
  by (simp add: unrealized_pl_pct_def cost_basis_def)

theorem zero_avg_cost_pct_undefined_witness:
  "avg_cost pos_free = 0 \<and> unrealized_pl pos_free = Some 21 \<and> unrealized_pl_pct pos_free = None"
proof -
  have a: "avg_cost pos_free = 0" by (simp add: pos_free_def)
  have "unrealized_pl pos_free = Some 21"
    by (simp add: unrealized_pl_def market_value_def cost_basis_def pos_free_def)
  with a zero_avg_cost_pct_undefined [OF a] show ?thesis by simp
qed

text \<open>
  The portfolio's \<open>total_unrealized_pl\<close> and \<open>total_unrealized_pl_pct\<close> follow the
  formulas of a position, with the totals in place of the position's values.
\<close>

theorem total_unrealized_formulas:
  "(total_unrealized_pl pf = None \<longleftrightarrow> total_market_value pf = None)
   \<and> (\<forall>tmv. total_market_value pf = Some tmv \<longrightarrow>
          total_unrealized_pl pf = Some (tmv - total_cost_basis pf))
   \<and> (total_unrealized_pl_pct pf = None
        \<longleftrightarrow> total_unrealized_pl pf = None \<or> total_cost_basis pf = 0)
   \<and> (\<forall>pl. total_unrealized_pl pf = Some pl \<longrightarrow> total_cost_basis pf \<noteq> 0 \<longrightarrow>
          total_unrealized_pl_pct pf = Some (pl / total_cost_basis pf * 100))"
  by (auto simp: total_unrealized_pl_def total_unrealized_pl_pct_def split: option.splits)

theorem total_unrealized_formulas_witness:
  "total_market_value \<lparr>positions = [pos_priced, pos_unpriced]\<rparr> = Some 1100
   \<and> total_cost_basis \<lparr>positions = [pos_priced, pos_unpriced]\<rparr> = 2000
   \<and> total_unrealized_pl \<lparr>positions = [pos_priced, pos_unpriced]\<rparr> = Some (- 900)
   \<and> total_unrealized_pl_pct \<lparr>positions = [pos_priced, pos_unpriced]\<rparr> = Some (- 45)
   \<and> total_market_value \<lparr>positions = [pos_unpriced]\<rparr> = None
   \<and> total_unrealized_pl \<lparr>positions = [pos_unpriced]\<rparr> = None
   \<and> total_unrealized_pl_pct \<lparr>positions = [pos_unpriced]\<rparr> = None"
proof -
  have mv: "market_value pos_priced = Some 1100" "market_value pos_unpriced = None"
    and cb: "cost_basis pos_priced = 1000" "cost_basis pos_unpriced = 1000"
    by (simp_all add: market_value_def cost_basis_def pos_priced_def pos_unpriced_def)
  have a: "total_market_value \<lparr>positions = [pos_priced, pos_unpriced]\<rparr> = Some 1100"
    "total_cost_basis \<lparr>positions = [pos_priced, pos_unpriced]\<rparr> = 2000"
    "total_market_value \<lparr>positions = [pos_unpriced]\<rparr> = None"
    by (simp_all add: total_market_value_def total_cost_basis_def py_sum_def mv cb)
  show ?thesis
    using total_unrealized_formulas [of "\<lparr>positions = [pos_priced, pos_unpriced]\<rparr>"]
      total_unrealized_formulas [of "\<lparr>positions = [pos_unpriced]\<rparr>"] a
    by simp
qed

text \<open>
  The scenario of \<open>test_portfolio_basic_pl_and_weights\<close>: 10 AAA bought at 100 and
  priced at 110, 5 BBB bought at 200 and priced at 180. The values and totals are the
  ones the test expects; the weights are the shares of the market value, 55 and 45.
\<close>

theorem two_position_scenario:
  "to_dataframe \<lparr>positions = [pos_priced, pos_bbb]\<rparr>
     = Inr \<lparr>frame_rows = [row_of pos_priced, row_of pos_bbb], weight_pct = Some [55, 45]\<rparr>
   \<and> cost_basis pos_priced = 1000 \<and> market_value pos_priced = Some 1100
   \<and> unrealized_pl pos_priced = Some 100
   \<and> cost_basis pos_bbb = 1000 \<and> market_value pos_bbb = Some 900
   \<and> unrealized_pl pos_bbb = Some (- 100)
   \<and> total_cost_basis \<lparr>positions = [pos_priced, pos_bbb]\<rparr> = 2000
   \<and> total_market_value \<lparr>positions = [pos_priced, pos_bbb]\<rparr> = Some 2000
   \<and> total_unrealized_pl \<lparr>positions = [pos_priced, pos_bbb]\<rparr> = Some 0
   \<and> total_unrealized_pl_pct \<lparr>positions = [pos_priced, pos_bbb]\<rparr> = Some 0"
proof -
  have mv: "market_value pos_priced = Some 1100" "market_value pos_bbb = Some 900"
    and cb: "cost_basis pos_priced = 1000" "cost_basis pos_bbb = 1000"
    by (simp_all add: market_value_def cost_basis_def pos_priced_def pos_bbb_def)
  have df: "to_dataframe \<lparr>positions = [pos_priced, pos_bbb]\<rparr>
     = Inr \<lparr>frame_rows = [row_of pos_priced, row_of pos_bbb], weight_pct = Some [55, 45]\<rparr>"
    by (simp add: to_dataframe_def Let_def row_of_def mv fillna0_def)
  have tc: "total_cost_basis \<lparr>positions = [pos_priced, pos_bbb]\<rparr> = 2000"
    by (simp add: total_cost_basis_def py_sum_def cb)
  have tm: "total_market_value \<lparr>positions = [pos_priced, pos_bbb]\<rparr> = Some 2000"
    by (simp add: total_market_value_def py_sum_def mv)
  have tp: "total_unrealized_pl \<lparr>positions = [pos_priced, pos_bbb]\<rparr> = Some 0"
    by (simp add: total_unrealized_pl_def tm tc)
  have tq: "total_unrealized_pl_pct \<lparr>positions = [pos_priced, pos_bbb]\<rparr> = Some 0"
    by (simp add: total_unrealized_pl_pct_def tp tc)
  from mv cb df tc tm tp tq show ?thesis
    by (simp add: unrealized_pl_def)
qed

subsection \<open>Portfolio volatility of a complete table\<close>

lemma finite_map_Fin: "list_all isfinite vs \<Longrightarrow> map Fin (map fin_val vs) = vs"
proof (induction vs)
  case Nil
  then show ?case by simp
next
  case (Cons v vs)
  then show ?case by (cases v) simp_all
qed

lemma fsum_Fin: "fsum (map (\<lambda>x. Fin (f x)) xs) = Fin (sum_list (map f xs))"
  by (induction xs) (simp_all add: fsum_def)

lemma map2_fmul_Fin: "map2 fmul (map Fin xs) (map Fin ys) = map Fin (map2 (*) xs ys)"
proof (induction xs arbitrary: ys)
  case Nil
  then show ?case by simp
next
  case (Cons x xs)
  then show ?case by (cases ys) simp_all
qed

lemma dot_Fin: "dot (map Fin xs) (map Fin ys) = Fin (sum_list (map2 (*) xs ys))"
  by (simp add: dot_def map2_fmul_Fin fsum_Fin comp_def)

lemma column_finite:
  assumes "all_finite df" and "well_formed df" and "j < length (columns df)"
  shows "list_all isfinite (column df j)"
  using assms by (auto simp: all_finite_def well_formed_def column_def list_all_iff)

lemma all_finite_no_missing:
  assumes "all_finite df"
  shows "list_all (\<lambda>r. list_all (\<lambda>v. \<not> isna v) (snd r)) (rows df)"
proof -
  have "isfinite v \<Longrightarrow> \<not> isna v" for v by (cases v) simp_all
  with assms show ?thesis by (auto simp: all_finite_def list_all_iff)
qed

lemma centered_column:
  assumes "list_all isfinite (column df j)" and "rows df \<noteq> []"
  shows "map (\<lambda>v. fsub v (fdiv (fsum (column df j)) (Fin (real (length (rows df)))))) (column df j)
       = map Fin (centered df j)"
proof -
  let ?c = "map fin_val (column df j)"
  have col: "column df j = map Fin ?c"
    using assms(1) by (rule finite_map_Fin [symmetric])
  have len: "length (column df j) = length (rows df)" by (simp add: column_def)
  have n: "real (length (rows df)) \<noteq> 0" using assms(2) by simp
  have "fdiv (fsum (column df j)) (Fin (real (length (rows df))))
      = Fin (sum_list ?c / real (length (rows df)))"
    using n by (subst col) (simp add: fsum_Fin comp_def)
  then have "map (\<lambda>v. fsub v (fdiv (fsum (column df j)) (Fin (real (length (rows df))))))
        (map Fin ?c)
      = map Fin (centered df j)"
    by (simp add: centered_def Let_def len fsub_def comp_def)
  with col show ?thesis by simp
qed

lemma np_cov_sample_cov:
  assumes "all_finite df" and "well_formed df" and "2 \<le> length (rows df)"
  shows "np_cov df
     = map (\<lambda>a. map (\<lambda>b. Fin (sample_cov df a b)) [0..<length (columns df)])
         [0..<length (columns df)]"
proof -
  let ?k = "length (columns df)"
  let ?n = "length (rows df)"
  let ?avg = "map (\<lambda>j. fdiv (fsum (column df j)) (Fin (real ?n))) [0..<?k]"
  have ne: "rows df \<noteq> []" using assms(3) by auto
  have fact: "(if ?n \<le> 1 then 0 else real ?n - 1) = real ?n - 1" "real ?n - 1 \<noteq> 0"
    using assms(3) by simp_all
  have X: "map (\<lambda>j. map (\<lambda>v. fsub v (?avg ! j)) (column df j)) [0..<?k]
      = map (\<lambda>j. map Fin (centered df j)) [0..<?k]"
  proof (rule map_cong [OF refl])
    fix j assume "j \<in> set [0..<?k]"
    then have j: "j < ?k" by simp
    then have "?avg ! j = fdiv (fsum (column df j)) (Fin (real ?n))" by simp
    moreover have "list_all isfinite (column df j)"
      using assms(1,2) j by (rule column_finite)
    ultimately show "map (\<lambda>v. fsub v (?avg ! j)) (column df j) = map Fin (centered df j)"
      using ne by (simp add: centered_column)
  qed
  show ?thesis
    unfolding np_cov_def Let_def fact X
    using fact(2)
    by (simp add: comp_def map2_fmul_Fin fsum_Fin sample_cov_def)
qed


lemma sum_list_map2_nth:
  assumes "length xs = n" and "length ys = n"
  shows "sum_list (map2 (*) xs ys) = (\<Sum>i = 0..<n. xs ! i * (ys ! i :: real))"
  using assms by (simp add: sum_list_sum_nth)

lemma sum_list_map2_upt:
  assumes "length ws = k"
  shows "sum_list (map2 (*) ws (map g [0..<k])) = (\<Sum>a = 0..<k. ws ! a * (g a :: real))"
    and "sum_list (map2 (*) (map g [0..<k]) ws) = (\<Sum>a = 0..<k. g a * ws ! a)"
  using assms by (simp_all add: sum_list_sum_nth)

lemma quadratic_form:
  fixes w :: "nat \<Rightarrow> real" and Y :: "nat \<Rightarrow> nat \<Rightarrow> real"
  shows "(\<Sum>a\<in>A. w a * (\<Sum>b\<in>A. ((\<Sum>i\<in>N. Y a i * Y b i) / d) * w b))
       = (\<Sum>i\<in>N. (\<Sum>a\<in>A. w a * Y a i)\<^sup>2) / d"
proof -
  have "(\<Sum>a\<in>A. w a * (\<Sum>b\<in>A. ((\<Sum>i\<in>N. Y a i * Y b i) / d) * w b))
      = (\<Sum>a\<in>A. \<Sum>b\<in>A. \<Sum>i\<in>N. (w a * Y a i) * (w b * Y b i)) / d"
    by (simp add: sum_distrib_left sum_distrib_right sum_divide_distrib mult_ac)
  also have "(\<Sum>a\<in>A. \<Sum>b\<in>A. \<Sum>i\<in>N. (w a * Y a i) * (w b * Y b i))
      = (\<Sum>a\<in>A. \<Sum>i\<in>N. \<Sum>b\<in>A. (w a * Y a i) * (w b * Y b i))"
    by (rule sum.cong [OF refl]) (rule sum.swap)
  also have "\<dots> = (\<Sum>i\<in>N. \<Sum>a\<in>A. \<Sum>b\<in>A. (w a * Y a i) * (w b * Y b i))"
    by (rule sum.swap)
  also have "\<dots> = (\<Sum>i\<in>N. (\<Sum>a\<in>A. w a * Y a i)\<^sup>2)"
    by (simp add: power2_eq_square sum_product)
  finally show ?thesis .
qed

lemma length_centered: "length (centered df j) = length (rows df)"
  by (simp add: centered_def column_def Let_def)

lemma daily_var_finite:
  assumes "all_finite df" and "well_formed df" and "2 \<le> length (rows df)"
    and "list_all isfinite w" and "length w = length (columns df)"
  shows "daily_var df w
     = Fin ((\<Sum>i = 0..<length (rows df).
               (\<Sum>a = 0..<length (columns df). fin_val (w ! a) * centered df a ! i)\<^sup>2)
            / (real (length (rows df)) - 1))"
proof -
  let ?k = "length (columns df)"
  let ?n = "length (rows df)"
  let ?C = "sample_cov df"
  define ws where "ws = map fin_val w"
  have w: "w = map Fin ws"
    unfolding ws_def using assms(4) by (rule finite_map_Fin [symmetric])
  have lw: "length ws = ?k" using assms(5) by (simp add: ws_def)
  have c: "cov df = map (\<lambda>a. map (\<lambda>b. Fin (?C a b)) [0..<?k]) [0..<?k]"
    using assms(1,2,3) by (simp add: cov_def all_finite_no_missing np_cov_sample_cov)
  have row: "dot (map (\<lambda>b. Fin (?C a b)) [0..<?k]) (map Fin ws)
      = Fin (\<Sum>b = 0..<?k. ?C a b * ws ! b)" for a
  proof -
    have "map (\<lambda>b. Fin (?C a b)) [0..<?k] = map Fin (map (?C a) [0..<?k])" by simp
    then have "dot (map (\<lambda>b. Fin (?C a b)) [0..<?k]) (map Fin ws)
        = Fin (sum_list (map2 (*) (map (?C a) [0..<?k]) ws))"
      by (simp only: dot_Fin)
    also have "sum_list (map2 (*) (map (?C a) [0..<?k]) ws) = (\<Sum>b = 0..<?k. ?C a b * ws ! b)"
      using lw by (rule sum_list_map2_upt)
    finally show ?thesis .
  qed
  have "matvec (cov df) w = map (\<lambda>a. Fin (\<Sum>b = 0..<?k. ?C a b * ws ! b)) [0..<?k]"
    unfolding c matvec_def w by (simp only: map_map comp_def row)
  also have "\<dots> = map Fin (map (\<lambda>a. \<Sum>b = 0..<?k. ?C a b * ws ! b) [0..<?k])"
    by simp
  finally have mv: "matvec (cov df) w
      = map Fin (map (\<lambda>a. \<Sum>b = 0..<?k. ?C a b * ws ! b) [0..<?k])" .
  have "daily_var df w = dot w (matvec (cov df) w)"
    by (simp only: daily_var_def)
  also have "\<dots> = dot w (map Fin (map (\<lambda>a. \<Sum>b = 0..<?k. ?C a b * ws ! b) [0..<?k]))"
    by (simp only: mv)
  also have "\<dots> = dot (map Fin ws) (map Fin (map (\<lambda>a. \<Sum>b = 0..<?k. ?C a b * ws ! b) [0..<?k]))"
    by (subst w) (rule refl)
  also have "\<dots> = Fin (sum_list (map2 (*) ws (map (\<lambda>a. \<Sum>b = 0..<?k. ?C a b * ws ! b) [0..<?k])))"
    by (rule dot_Fin)
  also have "sum_list (map2 (*) ws (map (\<lambda>a. \<Sum>b = 0..<?k. ?C a b * ws ! b) [0..<?k]))
      = (\<Sum>a = 0..<?k. ws ! a * (\<Sum>b = 0..<?k. ?C a b * ws ! b))"
    using lw by (rule sum_list_map2_upt)
  also have "\<dots> = (\<Sum>a = 0..<?k. ws ! a *
        (\<Sum>b = 0..<?k. ((\<Sum>i = 0..<?n. centered df a ! i * centered df b ! i) / (real ?n - 1)) * ws ! b))"
    by (simp add: sample_cov_def sum_list_map2_nth [OF length_centered length_centered])
  also have "\<dots> = (\<Sum>i = 0..<?n. (\<Sum>a = 0..<?k. ws ! a * centered df a ! i)\<^sup>2) / (real ?n - 1)"
    by (rule quadratic_form)
  also have "\<dots> = (\<Sum>i = 0..<?n. (\<Sum>a = 0..<?k. fin_val (w ! a) * centered df a ! i)\<^sup>2) / (real ?n - 1)"
    using assms(5) by (simp add: ws_def)
  finally show ?thesis .
qed

text \<open>
  For a well-formed return table with at least two rows in which every cell is a number,
  and as many finite weights as columns, \<open>cov\<close> is the sample covariance matrix, the
  daily variance is a number that is not negative, and \<open>portfolio_volatility\<close> returns
  its square root times the square root of \<open>trading_days\<close>.
\<close>

theorem complete_table_volatility:
  assumes "\<not> empty r" and "well_formed r" and "all_finite r" and "2 \<le> length (rows r)"
    and "length w = length (columns r)" and "list_all isfinite w" and "0 \<le> td"
  shows "(\<forall>a < length (columns r). \<forall>b < length (columns r). cov r ! a ! b = Fin (sample_cov r a b))
     \<and> (\<exists>v. daily_var r w = Fin v \<and> 0 \<le> v
           \<and> portfolio_volatility r w td = Inr (Some (Fin (sqrt v * sqrt (real_of_int td)))))"
proof
  show "\<forall>a < length (columns r). \<forall>b < length (columns r). cov r ! a ! b = Fin (sample_cov r a b)"
    using assms(2,3,4) by (simp add: cov_def all_finite_no_missing np_cov_sample_cov)
next
  let ?v = "(\<Sum>i = 0..<length (rows r).
               (\<Sum>a = 0..<length (columns r). fin_val (w ! a) * centered r a ! i)\<^sup>2)
            / (real (length (rows r)) - 1)"
  have dv: "daily_var r w = Fin ?v"
    using assms(3,2,4,6,5) by (rule daily_var_finite)
  have "0 \<le> (\<Sum>i = 0..<length (rows r).
               (\<Sum>a = 0..<length (columns r). fin_val (w ! a) * centered r a ! i)\<^sup>2)"
    by (rule sum_nonneg) simp
  moreover have "0 < real (length (rows r)) - 1" using assms(4) by simp
  ultimately have nonneg: "0 \<le> ?v" by simp
  then have "portfolio_volatility r w td = Inr (Some (Fin (sqrt ?v * sqrt (real_of_int td))))"
    using assms(1,5,7) by (simp add: portfolio_volatility_def dv Let_def)
  with dv nonneg
  show "\<exists>v. daily_var r w = Fin v \<and> 0 \<le> v
           \<and> portfolio_volatility r w td = Inr (Some (Fin (sqrt v * sqrt (real_of_int td))))"
    by blast
qed

theorem complete_table_volatility_witness:
  "\<not> empty returns_example \<and> well_formed returns_example \<and> all_finite returns_example
   \<and> 2 \<le> length (rows returns_example)
   \<and> length [Fin (3 / 5), Fin (2 / 5)] = length (columns returns_example)
   \<and> (\<exists>v. daily_var returns_example [Fin (3 / 5), Fin (2 / 5)]  = Fin v \<and> 0 \<le> v
         \<and> portfolio_volatility returns_example [Fin (3 / 5), Fin (2 / 5)] 252
             = Inr (Some (Fin (sqrt v * sqrt (real_of_int 252)))))"
proof -
  have h: "\<not> empty returns_example" "well_formed returns_example" "all_finite returns_example"
    "2 \<le> length (rows returns_example)"
    "length [Fin (3 / 5), Fin (2 / 5)] = length (columns returns_example)"
    "list_all isfinite [Fin (3 / 5), Fin (2 / 5)]" "(0::int) \<le> 252"
    by (simp_all add: returns_example_def empty_def well_formed_def all_finite_def)
  from complete_table_volatility [OF h, THEN conjunct2] h show ?thesis
    by (intro conjI)
qed

end
